theory Spec2Isabelle
  imports Main
begin

section \<open>Upstream data (what the source-hosting API returns)\<close>

text \<open>
  The fields the handler reads from the upstream responses. A value that
  may be \<open>null\<close> in the upstream payload is an \<open>option\<close>.
\<close>

record gh_check_run =
  run_id :: int
  run_name :: string
  run_status :: string
  run_conclusion :: "string option"
  started_at :: "string option"
  completed_at :: "string option"
  details_url :: "string option"
  html_url :: string

record gh_status =
  st_id :: int
  st_state :: string
  st_description :: "string option"
  st_context :: string
  target_url :: "string option"
  created_at :: string

text \<open>\<open>checkRunsResponse.data\<close>: one page of check-runs and upstream's own count.\<close>

record check_runs_data =
  total_count :: int
  check_runs :: "gh_check_run list"

text \<open>\<open>statusResponse.data\<close>: the combined state and the individual statuses.\<close>

record combined_status_data =
  state :: string
  statuses :: "gh_status list"

section \<open>The result the aggregator sends and the poller receives\<close>

record CheckRun =
  cr_id :: int
  cr_name :: string
  cr_status :: string
  cr_conclusion :: "string option"
  startedAt :: "string option"
  completedAt :: "string option"
  detailsUrl :: "string option"
  htmlUrl :: string

record CommitStatus =
  cs_id :: int
  cs_state :: string
  cs_description :: "string option"
  cs_context :: string
  targetUrl :: "string option"
  createdAt :: string

record BuildStatusData =
  sha :: string
  overallStatus :: string
  overallConclusion :: string
  checkRuns :: "CheckRun list"
  commitStatuses :: "CommitStatus list"
  totalCount :: int
  permissionError :: "bool option"

section \<open>Status Aggregator: the reduction\<close>

text \<open>
  \<open>checkRuns.some(run => run.conclusion === "failure" || ...)\<close> and
  \<open>checkRuns.some(run => run.status === "queued" || ...)\<close>.
\<close>

definition hasFailure :: "gh_check_run list \<Rightarrow> bool" where
  "hasFailure runs =
     list_ex (\<lambda>run. run_conclusion run = Some ''failure''
                  \<or> run_conclusion run = Some ''cancelled''
                  \<or> run_conclusion run = Some ''timed_out'') runs"

definition hasPending :: "gh_check_run list \<Rightarrow> bool" where
  "hasPending runs =
     list_ex (\<lambda>run. run_status run = ''queued'' \<or> run_status run = ''in_progress'') runs"

text \<open>
  The pair is \<open>(overallStatus, overallConclusion)\<close>. The reduction is three
  steps: the initialisation, the pass over the check-runs and the pass over
  the combined commit status; each pass takes the pair as it stands and
  returns it as it leaves it.
\<close>

definition initial_overall :: "string \<times> string" where
  "initial_overall = (''success'', ''success'')"

definition checkRunPass :: "gh_check_run list \<Rightarrow> string \<times> string \<Rightarrow> string \<times> string" where
  "checkRunPass runs v =
     (if length runs > 0 then
        (if hasFailure runs then (''failure'', ''failure'')
         else if hasPending runs then (''pending'', ''pending'')
         else v)
      else v)"

definition commitStatusPass :: "string \<Rightarrow> string \<times> string \<Rightarrow> string \<times> string" where
  "commitStatusPass s v =
     (if s = ''pending'' then (''pending'', ''pending'')
      else if s = ''failure'' \<or> s = ''error'' then (''failure'', ''failure'')
      else v)"

definition reduce :: "gh_check_run list \<Rightarrow> string \<Rightarrow> string \<times> string" where
  "reduce runs s = commitStatusPass s (checkRunPass runs initial_overall)"

section \<open>Status Aggregator: the response\<close>

definition toCheckRun :: "gh_check_run \<Rightarrow> CheckRun" where
  "toCheckRun run =
     \<lparr> cr_id = run_id run, cr_name = run_name run, cr_status = run_status run,
       cr_conclusion = run_conclusion run, startedAt = started_at run,
       completedAt = completed_at run, detailsUrl = details_url run,
       htmlUrl = html_url run \<rparr>"

definition toCommitStatus :: "gh_status \<Rightarrow> CommitStatus" where
  "toCommitStatus s =
     \<lparr> cs_id = st_id s, cs_state = st_state s, cs_description = st_description s,
       cs_context = st_context s, targetUrl = target_url s, createdAt = created_at s \<rparr>"

text \<open>The \<open>data\<close> object of the success response (lines 85 to 110).\<close>

definition buildData :: "string \<Rightarrow> check_runs_data \<Rightarrow> combined_status_data \<Rightarrow> BuildStatusData" where
  "buildData commit cr cs =
     \<lparr> sha = commit,
       overallStatus = fst (reduce (check_runs cr) (state cs)),
       overallConclusion = snd (reduce (check_runs cr) (state cs)),
       checkRuns = map toCheckRun (check_runs cr),
       commitStatuses = map toCommitStatus (statuses cs),
       totalCount = total_count cr + int (length (statuses cs)),
       permissionError = None \<rparr>"

text \<open>
  A thrown JavaScript error: the handler reads \<open>error.message\<close> and
  \<open>error.stack\<close>, either of which may be undefined.
\<close>

record js_error =
  message :: "string option"
  stack :: "string option"

record auth_result =
  user :: "string option"
  session :: "string option"

record params =
  owner :: string
  repo :: string
  branch :: string

text \<open>
  The collaborators of the handler. Each call either throws (\<open>Inl\<close>) or
  returns (\<open>Inr\<close>); the upstream calls take the token and the arguments the
  handler passes them.
\<close>

record collaborators =
  getAuth :: "js_error + auth_result"
  getToken :: "string option \<Rightarrow> string \<Rightarrow> string \<Rightarrow> js_error + string option"
  decodeURIComponent :: "string \<Rightarrow> js_error + string"
  getBranch :: "string \<Rightarrow> string \<Rightarrow> string \<Rightarrow> string \<Rightarrow> js_error + string"
  listForRef :: "string \<Rightarrow> string \<Rightarrow> string \<Rightarrow> string \<Rightarrow> nat \<Rightarrow> js_error + check_runs_data"
  getCombinedStatusForRef :: "string \<Rightarrow> string \<Rightarrow> string \<Rightarrow> string \<Rightarrow> js_error + combined_status_data"
  NODE_ENV :: string

text \<open>
  An HTTP response: the status code and the body. A JSON body is the list of
  the fields of the top-level object; \<open>Response.json\<close> leaves out a field
  whose value is \<open>undefined\<close>.
\<close>

datatype jvalue = JString string | JData BuildStatusData

datatype body = NoBody | JsonBody "(string \<times> jvalue) list"

datatype response = Response nat body

fun http_status :: "response \<Rightarrow> nat" where
  "http_status (Response code b) = code"

fun response_body :: "response \<Rightarrow> body" where
  "response_body (Response code b) = b"

fun json_object :: "(string \<times> jvalue option) list \<Rightarrow> (string \<times> jvalue) list" where
  "json_object [] = []"
| "json_object ((k, None) # fs) = json_object fs"
| "json_object ((k, Some v) # fs) = (k, v) # json_object fs"

text \<open>
  The body of the \<open>try\<close> block: \<open>Inl\<close> is a thrown error, \<open>Inr\<close> a returned
  response.
\<close>

definition try_block :: "collaborators \<Rightarrow> params \<Rightarrow> js_error + response" where
  "try_block c p =
     (case getAuth c of
        Inl e \<Rightarrow> Inl e
      | Inr a \<Rightarrow>
          if session a = None then Inr (Response 401 NoBody)
          else
            (case getToken c (user a) (owner p) (repo p) of
               Inl e \<Rightarrow> Inl e
             | Inr None \<Rightarrow> Inl \<lparr> message = Some ''Token not found'', stack = None \<rparr>
             | Inr (Some token) \<Rightarrow>
                 if token = [] then Inl \<lparr> message = Some ''Token not found'', stack = None \<rparr>
                 else
                 (case decodeURIComponent c (branch p) of
                    Inl e \<Rightarrow> Inl e
                  | Inr b \<Rightarrow>
                      (case getBranch c token (owner p) (repo p) b of
                         Inl e \<Rightarrow> Inl e
                       | Inr commit \<Rightarrow>
                           (case listForRef c token (owner p) (repo p) commit 100 of
                              Inl e \<Rightarrow> Inl e
                            | Inr cr \<Rightarrow>
                                (case getCombinedStatusForRef c token (owner p) (repo p) commit of
                                   Inl e \<Rightarrow> Inl e
                                 | Inr cs \<Rightarrow>
                                     Inr (Response 200 (JsonBody (json_object
                                       [(''status'', Some (JString ''success'')),
                                        (''data'', Some (JData (buildData commit cr cs)))])))))))))"

text \<open>The \<open>catch\<close> block: \<open>error.message || "Unknown error occurred"\<close>.\<close>

definition catch_block :: "collaborators \<Rightarrow> js_error \<Rightarrow> response" where
  "catch_block c e =
     Response 500 (JsonBody (json_object
       [(''status'', Some (JString ''error'')),
        (''message'', Some (JString
           (case message e of
              None \<Rightarrow> ''Unknown error occurred''
            | Some m \<Rightarrow> if m = [] then ''Unknown error occurred'' else m))),
        (''details'', if NODE_ENV c = ''development'' then map_option JString (stack e) else None)]))"

definition GET :: "collaborators \<Rightarrow> params \<Rightarrow> response" where
  "GET c p = (case try_block c p of Inl e \<Rightarrow> catch_block c e | Inr r \<Rightarrow> r)"

section \<open>Status Poller: one fetch attempt\<close>

text \<open>
  The closure variables of the effect (\<open>failures\<close>, \<open>isMounted\<close>), the
  React state of the component (\<open>buildStatus\<close>, \<open>loading\<close>, \<open>error\<close>) and
  a counter of the requests that \<open>fetch\<close> has sent.
\<close>

record poller_state =
  failures :: nat
  isMounted :: bool
  buildStatus :: "BuildStatusData option"
  loading :: bool
  error :: "string option"
  requests :: nat

text \<open>The parsed JSON payload: \<open>data.status\<close>, \<open>data.data\<close>, \<open>data.message\<close>.\<close>

record payload =
  p_status :: "string option"
  p_data :: "BuildStatusData option"
  p_message :: "string option"

text \<open>
  What one request meets: \<open>fetch\<close> rejects (network error, or the 10 second
  timeout), or a response arrives with its HTTP status, whose body either
  fails to parse as a JSON object or is a payload.
\<close>

datatype json_result = JsonThrows string | JsonValue payload

datatype fetch_outcome = FetchThrows string | HttpResponse nat json_result

definition ok :: "nat \<Rightarrow> bool" where
  "ok code = (200 \<le> code \<and> code \<le> 299)"

fun string_of_nat :: "nat \<Rightarrow> string" where
  "string_of_nat n =
     (if n < 10 then [char_of (48 + n)]
      else string_of_nat (n div 10) @ [char_of (48 + n mod 10)])"

text \<open>The \<open>catch\<close> block of \<open>fetchStatus\<close>, for an error with message \<open>m\<close>.\<close>

definition catch_fetch :: "string \<Rightarrow> poller_state \<Rightarrow> poller_state" where
  "catch_fetch m s =
     (if isMounted s then
        s\<lparr> error := Some (if m = [] then ''Network error'' else m),
           failures := min (failures s + 1) 999 \<rparr>
      else s)"

definition finally_fetch :: "poller_state \<Rightarrow> poller_state" where
  "finally_fetch s = (if isMounted s then s\<lparr> loading := False \<rparr> else s)"

text \<open>
  \<open>fetchStatus\<close>, run from its guard to the end of its \<open>finally\<close> block.
  \<open>captured\<close> is the \<open>buildStatus\<close> the closure was created with (the effect
  does not depend on it, so the closure keeps the value of the render that
  started the effect).
\<close>

definition fetchStatus :: "BuildStatusData option \<Rightarrow> fetch_outcome \<Rightarrow> poller_state \<Rightarrow> poller_state" where
  "fetchStatus captured out s =
     (if failures s \<ge> 3 then s
      else
        let s1 = (if captured = None then s\<lparr> loading := True \<rparr> else s);
            s2 = s1\<lparr> error := None \<rparr>;
            s3 = s2\<lparr> requests := requests s2 + 1 \<rparr>
        in finally_fetch
          (case out of
             FetchThrows m \<Rightarrow> catch_fetch m s3
           | HttpResponse code b \<Rightarrow>
               if \<not> ok code then
                 catch_fetch (''Failed to fetch build status: '' @ string_of_nat code)
                   (s3\<lparr> failures := 999 \<rparr>)
               else
                 (case b of
                    JsonThrows m \<Rightarrow> catch_fetch m s3
                  | JsonValue d \<Rightarrow>
                      if p_status d = Some ''success'' \<and> isMounted s3 then
                        (case p_data d of
                           None \<Rightarrow>
                             catch_fetch ''Cannot read properties of undefined''
                               (s3\<lparr> buildStatus := None, failures := 0 \<rparr>)
                         | Some bs \<Rightarrow>
                             let s4 = s3\<lparr> buildStatus := Some bs, failures := 0 \<rparr>
                             in if permissionError bs = Some True
                                then s4\<lparr> failures := 999 \<rparr> else s4)
                      else
                        catch_fetch
                          (case p_message d of
                             None \<Rightarrow> ''Failed to fetch build status''
                           | Some m \<Rightarrow> if m = [] then ''Failed to fetch build status'' else m)
                          s3)))"

text \<open>
  The attempts of one mount, in the order the timer starts them: the first
  call and then one per tick, each run to its end before the next starts.
\<close>

fun poll :: "BuildStatusData option \<Rightarrow> fetch_outcome list \<Rightarrow> poller_state \<Rightarrow> poller_state" where
  "poll captured [] s = s"
| "poll captured (out # outs) s = poll captured outs (fetchStatus captured out s)"

text \<open>The component as first mounted, with a branch configured.\<close>

definition mounted :: poller_state where
  "mounted = \<lparr> failures = 0, isMounted = True, buildStatus = None, loading = True,
               error = None, requests = 0 \<rparr>"

section \<open>Status Poller: rendering\<close>

text \<open>
  \<open>new Date(t).getTime()\<close>: the parser of the JavaScript runtime is a
  parameter \<open>parse\<close>; \<open>None\<close> is NaN, which is what the empty string gives.
\<close>

definition getTime :: "(string \<Rightarrow> int option) \<Rightarrow> string \<Rightarrow> int option" where
  "getTime parse t = (if t = [] then None else parse t)"

text \<open>\<open>a || b\<close> on values of type \<open>string | null\<close>: the empty string is falsy.\<close>

definition js_or :: "string option \<Rightarrow> string option \<Rightarrow> string option" where
  "js_or a b = (case a of None \<Rightarrow> b | Some x \<Rightarrow> if x = [] then b else a)"

text \<open>The comparator \<open>(a, b) => new Date(b).getTime() - new Date(a).getTime()\<close>.\<close>

definition compareFn :: "(string \<Rightarrow> int option) \<Rightarrow> string \<Rightarrow> string \<Rightarrow> int option" where
  "compareFn parse a b =
     (case getTime parse b of
        None \<Rightarrow> None
      | Some x \<Rightarrow> (case getTime parse a of None \<Rightarrow> None | Some y \<Rightarrow> Some (x - y)))"

text \<open>
  \<open>Array.prototype.sort\<close> with a comparator: the sort is stable and reads a
  NaN from the comparator as 0.
\<close>

definition sort_compare :: "('a \<Rightarrow> 'a \<Rightarrow> int option) \<Rightarrow> 'a \<Rightarrow> 'a \<Rightarrow> int" where
  "sort_compare cmp x y = (case cmp x y of None \<Rightarrow> 0 | Some v \<Rightarrow> v)"

fun insert_by :: "('a \<Rightarrow> 'a \<Rightarrow> int option) \<Rightarrow> 'a \<Rightarrow> 'a list \<Rightarrow> 'a list" where
  "insert_by cmp x [] = [x]"
| "insert_by cmp x (y # ys) =
     (if sort_compare cmp x y \<le> 0 then x # y # ys else y # insert_by cmp x ys)"

definition js_sort :: "('a \<Rightarrow> 'a \<Rightarrow> int option) \<Rightarrow> 'a list \<Rightarrow> 'a list" where
  "js_sort cmp xs = foldr (insert_by cmp) xs []"

definition getMostRecentTimestamp :: "(string \<Rightarrow> int option) \<Rightarrow> BuildStatusData \<Rightarrow> string option" where
  "getMostRecentTimestamp parse bs =
     (let timestamps =
            map the (filter (\<lambda>t. t \<noteq> None)
              (map (\<lambda>run. js_or (completedAt run) (startedAt run)) (checkRuns bs)))
      in if length timestamps = 0 then None
         else (case js_sort (compareFn parse) timestamps of
                 [] \<Rightarrow> None
               | t # ts \<Rightarrow> Some t))"

definition getStatusText :: "BuildStatusData \<Rightarrow> string" where
  "getStatusText bs =
     (if overallStatus bs = ''pending'' then ''Building...''
      else if overallConclusion bs = ''success'' then ''Build passing''
      else if overallConclusion bs = ''failure'' then ''Build failing''
      else ''No builds'')"

text \<open>
  What the component returns: the loading indicator, the empty fixed-height
  placeholder, \<open>null\<close>, or the badge (with its status text and the timestamp
  its subtext is computed from).
\<close>

datatype rendered = LoadingIndicator | Placeholder | Nothing | Badge string "string option"

definition truthy :: "string option \<Rightarrow> bool" where
  "truthy e = (case e of None \<Rightarrow> False | Some m \<Rightarrow> m \<noteq> [])"

definition render :: "(string \<Rightarrow> int option) \<Rightarrow> poller_state \<Rightarrow> rendered" where
  "render parse s =
     (if loading s \<and> buildStatus s = None then LoadingIndicator
      else if truthy (error s) \<or> buildStatus s = None then Placeholder
      else
        (case buildStatus s of
           None \<Rightarrow> Placeholder
         | Some bs \<Rightarrow>
             if totalCount bs = 0 \<or> permissionError bs = Some True then Nothing
             else Badge (getStatusText bs) (getMostRecentTimestamp parse bs)))"

section \<open>The claims' own notions\<close>

text \<open>
  The handler found no session: \<open>getAuth\<close> returned, and \<open>session\<close> is null.
\<close>

definition no_session :: "collaborators \<Rightarrow> bool" where
  "no_session c = (case getAuth c of Inl e \<Rightarrow> False | Inr a \<Rightarrow> session a = None)"

text \<open>
  Nothing failed: every collaborator call the handler makes returns, and
  the token is there.
\<close>

definition all_calls_succeed :: "collaborators \<Rightarrow> params \<Rightarrow> bool" where
  "all_calls_succeed c p =
     (case getAuth c of
        Inl e \<Rightarrow> False
      | Inr a \<Rightarrow>
          (case getToken c (user a) (owner p) (repo p) of
             Inl e \<Rightarrow> False
           | Inr None \<Rightarrow> False
           | Inr (Some token) \<Rightarrow>
               token \<noteq> [] \<and>
               (case decodeURIComponent c (branch p) of
                  Inl e \<Rightarrow> False
                | Inr b \<Rightarrow>
                    (case getBranch c token (owner p) (repo p) b of
                       Inl e \<Rightarrow> False
                     | Inr commit \<Rightarrow>
                         (case listForRef c token (owner p) (repo p) commit 100 of
                            Inl e \<Rightarrow> False
                          | Inr cr \<Rightarrow>
                              (case getCombinedStatusForRef c token (owner p) (repo p) commit of
                                 Inl e \<Rightarrow> False
                               | Inr cs \<Rightarrow> True))))))"

text \<open>
  The error envelope: HTTP 500, a JSON object with \<open>status: "error"\<close> and a
  \<open>message\<close>, no \<open>data\<close>, no field besides \<open>details\<close>, and \<open>details\<close> only when
  \<open>dev\<close> (the development posture) holds.
\<close>

definition is_error_envelope :: "bool \<Rightarrow> response \<Rightarrow> bool" where
  "is_error_envelope dev r =
     (case response_body r of
        NoBody \<Rightarrow> False
      | JsonBody fs \<Rightarrow>
          http_status r = 500 \<and>
          map_of fs ''status'' = Some (JString ''error'') \<and>
          (case map_of fs ''message'' of Some (JString m) \<Rightarrow> True | _ \<Rightarrow> False) \<and>
          map_of fs ''data'' = None \<and>
          list_all (\<lambda>f. fst f = ''status'' \<or> fst f = ''message'' \<or> fst f = ''details'') fs \<and>
          (map_of fs ''details'' \<noteq> None \<longrightarrow> dev))"

text \<open>The response carries a \<open>data\<close> field (a result, whole or partial).\<close>

definition has_data :: "response \<Rightarrow> bool" where
  "has_data r =
     (case response_body r of
        NoBody \<Rightarrow> False
      | JsonBody fs \<Rightarrow> map_of fs ''data'' \<noteq> None)"

text \<open>The result a response carries in its \<open>data\<close> field, if it has one.\<close>

definition response_data :: "response \<Rightarrow> BuildStatusData option" where
  "response_data r =
     (case response_body r of
        NoBody \<Rightarrow> None
      | JsonBody fs \<Rightarrow> (case map_of fs ''data'' of Some (JData d) \<Rightarrow> Some d | _ \<Rightarrow> None))"

text \<open>
  The success response \<open>{status: "success", data: d}\<close> with HTTP 200.
\<close>

definition success_response :: "BuildStatusData \<Rightarrow> response" where
  "success_response d =
     Response 200 (JsonBody [(''status'', JString ''success''), (''data'', JData d)])"

text \<open>
  The timestamp of a check-run as the specification words it: \<open>completedAt\<close>
  if it is not null, otherwise \<open>startedAt\<close>; and the timestamps of the runs
  that have one.
\<close>

definition spec_timestamp :: "CheckRun \<Rightarrow> string option" where
  "spec_timestamp run = (case completedAt run of None \<Rightarrow> startedAt run | Some t \<Rightarrow> Some t)"

definition spec_timestamps :: "CheckRun list \<Rightarrow> string list" where
  "spec_timestamps runs = map the (filter (\<lambda>t. t \<noteq> None) (map spec_timestamp runs))"

text \<open>The instant of a timestamp that parses.\<close>

definition instant :: "(string \<Rightarrow> int option) \<Rightarrow> string \<Rightarrow> int" where
  "instant parse t = the (getTime parse t)"

section \<open>Example inputs\<close>

definition failed_run :: gh_check_run where
  "failed_run = \<lparr> run_id = 1, run_name = ''build'', run_status = ''completed'',
     run_conclusion = Some ''failure'', started_at = Some ''2024-01-01T00:00:00Z'',
     completed_at = Some ''2024-01-01T00:05:00Z'', details_url = None,
     html_url = ''https://example.test/runs/1'' \<rparr>"

definition running_run :: gh_check_run where
  "running_run = \<lparr> run_id = 2, run_name = ''deploy'', run_status = ''in_progress'',
     run_conclusion = None, started_at = Some ''2024-01-01T00:06:00Z'',
     completed_at = None, details_url = None,
     html_url = ''https://example.test/runs/2'' \<rparr>"

definition passed_run :: gh_check_run where
  "passed_run = \<lparr> run_id = 3, run_name = ''lint'', run_status = ''completed'',
     run_conclusion = Some ''success'', started_at = Some ''2024-01-01T00:00:00Z'',
     completed_at = Some ''2024-01-01T00:01:00Z'', details_url = None,
     html_url = ''https://example.test/runs/3'' \<rparr>"

definition green_status :: gh_status where
  "green_status = \<lparr> st_id = 7, st_state = ''success'', st_description = None,
     st_context = ''ci/external'', target_url = None,
     created_at = ''2024-01-01T00:02:00Z'' \<rparr>"

text \<open>
  Collaborators that all succeed and hand back the given upstream data, and
  the same with a branch lookup that throws.
\<close>

definition serving :: "check_runs_data \<Rightarrow> combined_status_data \<Rightarrow> collaborators" where
  "serving cr cs =
     \<lparr> getAuth = Inr \<lparr> user = Some ''u'', session = Some ''s'' \<rparr>,
       getToken = (\<lambda>u ow re. Inr (Some ''token'')),
       decodeURIComponent = (\<lambda>b. Inr b),
       getBranch = (\<lambda>t ow re b. Inr ''abc123''),
       listForRef = (\<lambda>t ow re r n. Inr cr),
       getCombinedStatusForRef = (\<lambda>t ow re r. Inr cs),
       NODE_ENV = ''production'' \<rparr>"

definition branch_missing :: "string \<Rightarrow> collaborators" where
  "branch_missing env =
     \<lparr> getAuth = Inr \<lparr> user = Some ''u'', session = Some ''s'' \<rparr>,
       getToken = (\<lambda>u ow re. Inr (Some ''token'')),
       decodeURIComponent = (\<lambda>b. Inr b),
       getBranch = (\<lambda>t ow re b. Inl \<lparr> message = Some ''Branch not found'', stack = Some ''at getBranch'' \<rparr>),
       listForRef = (\<lambda>t ow re r n. Inr \<lparr> total_count = 0, check_runs = [] \<rparr>),
       getCombinedStatusForRef = (\<lambda>t ow re r. Inr \<lparr> state = ''pending'', statuses = [] \<rparr>),
       NODE_ENV = env \<rparr>"

definition signed_out :: collaborators where
  "signed_out = (branch_missing ''production'')\<lparr> getAuth := Inr \<lparr> user = None, session = None \<rparr> \<rparr>"

definition main_branch :: params where
  "main_branch = \<lparr> owner = ''o'', repo = ''r'', branch = ''main'' \<rparr>"

text \<open>A result with no checks at all, and a payload that is marked as an error.\<close>

definition empty_result :: BuildStatusData where
  "empty_result = \<lparr> sha = ''abc123'', overallStatus = ''success'',
     overallConclusion = ''success'', checkRuns = [], commitStatuses = [],
     totalCount = 0, permissionError = None \<rparr>"

definition error_payload :: payload where
  "error_payload = \<lparr> p_status = Some ''error'', p_data = None, p_message = Some ''boom'' \<rparr>"

text \<open>A parser that knows the timestamps of the examples (milliseconds).\<close>

definition example_parse :: "string \<Rightarrow> int option" where
  "example_parse = map_of
     [(''2024-01-01T00:00:00Z'', 1704067200000),
      (''2024-01-01T00:01:00Z'', 1704067260000),
      (''2024-01-01T00:05:00Z'', 1704067500000),
      (''2024-01-01T00:06:00Z'', 1704067560000)]"

text \<open>A result with two check-runs, one still running and one failed.\<close>

definition two_runs_result :: BuildStatusData where
  "two_runs_result = buildData ''abc123''
     \<lparr> total_count = 2, check_runs = [running_run, failed_run] \<rparr>
     \<lparr> state = ''success'', statuses = [] \<rparr>"

section \<open>An invariant of the sort\<close>

text \<open>No element of the list is later than its head.\<close>

definition latest_first :: "(string \<Rightarrow> int option) \<Rightarrow> string list \<Rightarrow> bool" where
  "latest_first parse ts = (\<forall>z \<in> set ts. instant parse z \<le> instant parse (hd ts))"

section \<open>Lemmas on the reduction\<close>

lemma checkRunPass_cases:
  "checkRunPass runs v = (''failure'', ''failure'') \<and> hasFailure runs
   \<or> checkRunPass runs v = (''pending'', ''pending'') \<and> \<not> hasFailure runs \<and> hasPending runs
   \<or> checkRunPass runs v = v \<and> \<not> hasFailure runs \<and> \<not> hasPending runs"
  by (cases runs) (auto simp: checkRunPass_def hasFailure_def hasPending_def)

lemma commitStatusPass_cases:
  "commitStatusPass s v = (''pending'', ''pending'') \<and> s = ''pending''
   \<or> commitStatusPass s v = (''failure'', ''failure'') \<and> (s = ''failure'' \<or> s = ''error'')
   \<or> commitStatusPass s v = v \<and> s \<noteq> ''pending'' \<and> s \<noteq> ''failure'' \<and> s \<noteq> ''error''"
  by (auto simp: commitStatusPass_def)

lemma hasFailure_iff:
  "hasFailure runs \<longleftrightarrow>
     (\<exists>run \<in> set runs. run_conclusion run = Some ''failure''
        \<or> run_conclusion run = Some ''cancelled'' \<or> run_conclusion run = Some ''timed_out'')"
  by (simp add: hasFailure_def list_ex_iff)

lemma hasPending_iff:
  "hasPending runs \<longleftrightarrow>
     (\<exists>run \<in> set runs. run_status run = ''queued'' \<or> run_status run = ''in_progress'')"
  by (simp add: hasPending_def list_ex_iff)

lemma reduce_fields_agree: "fst (reduce runs s) = snd (reduce runs s)"
  using checkRunPass_cases [of runs initial_overall]
    commitStatusPass_cases [of s "checkRunPass runs initial_overall"]
  by (auto simp: reduce_def initial_overall_def)

section \<open>Lemmas on the handler\<close>

lemma catch_block_envelope: "is_error_envelope (NODE_ENV c = ''development'') (catch_block c e)"
  by (cases "stack e") (simp_all add: is_error_envelope_def catch_block_def)

lemma catch_block_no_data: "\<not> has_data (catch_block c e)"
  by (cases "stack e") (simp_all add: has_data_def catch_block_def)

lemma response_data_catch: "response_data (catch_block c e) = None"
  by (cases "stack e") (simp_all add: response_data_def catch_block_def)

lemma response_data_success: "response_data (success_response d) = Some d"
  by (simp add: response_data_def success_response_def)

text \<open>
  The \<open>try\<close> block ends in one of three ways: the 401 response, a throw, or
  the success response built from what the three upstream calls returned.
\<close>

lemma try_block_cases:
  "(no_session c \<and> try_block c p = Inr (Response 401 NoBody))
   \<or> (\<not> no_session c \<and> \<not> all_calls_succeed c p \<and> (\<exists>e. try_block c p = Inl e))
   \<or> (\<not> no_session c \<and> all_calls_succeed c p \<and>
       (\<exists>a token b commit cr cs.
           getAuth c = Inr a \<and>
           getToken c (user a) (owner p) (repo p) = Inr (Some token) \<and>
           decodeURIComponent c (branch p) = Inr b \<and>
           getBranch c token (owner p) (repo p) b = Inr commit \<and>
           listForRef c token (owner p) (repo p) commit 100 = Inr cr \<and>
           getCombinedStatusForRef c token (owner p) (repo p) commit = Inr cs \<and>
           try_block c p = Inr (success_response (buildData commit cr cs))))"
proof (cases "getAuth c")
  case (Inl e)
  then show ?thesis
    by (simp add: no_session_def all_calls_succeed_def try_block_def)
next
  case auth: (Inr a)
  show ?thesis
  proof (cases "session a")
    case None
    with auth show ?thesis by (simp add: no_session_def try_block_def)
  next
    case sess: (Some sid)
    show ?thesis
    proof (cases "getToken c (user a) (owner p) (repo p)")
      case (Inl e)
      with auth sess show ?thesis
        by (simp add: no_session_def all_calls_succeed_def try_block_def)
    next
      case tok: (Inr t)
      show ?thesis
      proof (cases "t = None \<or> t = Some []")
        case True
        with auth sess tok show ?thesis
          by (auto simp: no_session_def all_calls_succeed_def try_block_def)
      next
        case False
        then obtain token where t: "t = Some token" "token \<noteq> []" by auto
        show ?thesis
        proof (cases "decodeURIComponent c (branch p)")
          case (Inl e)
          with auth sess tok t show ?thesis
            by (simp add: no_session_def all_calls_succeed_def try_block_def)
        next
          case dec: (Inr b)
          show ?thesis
          proof (cases "getBranch c token (owner p) (repo p) b")
            case (Inl e)
            with auth sess tok t dec show ?thesis
              by (simp add: no_session_def all_calls_succeed_def try_block_def)
          next
            case br: (Inr commit)
            show ?thesis
            proof (cases "listForRef c token (owner p) (repo p) commit 100")
              case (Inl e)
              with auth sess tok t dec br show ?thesis
                by (simp add: no_session_def all_calls_succeed_def try_block_def)
            next
              case runs: (Inr cr)
              show ?thesis
              proof (cases "getCombinedStatusForRef c token (owner p) (repo p) commit")
                case (Inl e)
                with auth sess tok t dec br runs show ?thesis
                  by (simp add: no_session_def all_calls_succeed_def try_block_def)
              next
                case (Inr cs)
                with auth sess tok t dec br runs show ?thesis
                  by (simp add: no_session_def all_calls_succeed_def try_block_def
                      success_response_def)
              qed
            qed
          qed
        qed
      qed
    qed
  qed
qed

lemma GET_cases:
  "(no_session c \<and> GET c p = Response 401 NoBody)
   \<or> (\<not> no_session c \<and> \<not> all_calls_succeed c p \<and> (\<exists>e. GET c p = catch_block c e))
   \<or> (\<not> no_session c \<and> all_calls_succeed c p \<and>
       (\<exists>a token b commit cr cs.
           getAuth c = Inr a \<and>
           getToken c (user a) (owner p) (repo p) = Inr (Some token) \<and>
           decodeURIComponent c (branch p) = Inr b \<and>
           getBranch c token (owner p) (repo p) b = Inr commit \<and>
           listForRef c token (owner p) (repo p) commit 100 = Inr cr \<and>
           getCombinedStatusForRef c token (owner p) (repo p) commit = Inr cs \<and>
           GET c p = success_response (buildData commit cr cs)))"
  using try_block_cases [of c p] by (auto simp: GET_def)

lemma GET_data:
  assumes "response_data (GET c p) = Some d"
  shows "\<exists>a token b commit cr cs.
           getAuth c = Inr a \<and>
           getToken c (user a) (owner p) (repo p) = Inr (Some token) \<and>
           decodeURIComponent c (branch p) = Inr b \<and>
           getBranch c token (owner p) (repo p) b = Inr commit \<and>
           listForRef c token (owner p) (repo p) commit 100 = Inr cr \<and>
           getCombinedStatusForRef c token (owner p) (repo p) commit = Inr cs \<and>
           d = buildData commit cr cs \<and> GET c p = success_response d"
proof -
  from GET_cases [of c p] consider
      (unauth) "GET c p = Response 401 NoBody"
    | (err) e where "GET c p = catch_block c e"
    | (succ) a token b commit cr cs where
        "getAuth c = Inr a" "getToken c (user a) (owner p) (repo p) = Inr (Some token)"
        "decodeURIComponent c (branch p) = Inr b"
        "getBranch c token (owner p) (repo p) b = Inr commit"
        "listForRef c token (owner p) (repo p) commit 100 = Inr cr"
        "getCombinedStatusForRef c token (owner p) (repo p) commit = Inr cs"
        "GET c p = success_response (buildData commit cr cs)"
    by blast
  then show ?thesis
  proof cases
    case unauth
    with assms show ?thesis by (simp add: response_data_def)
  next
    case err
    with assms show ?thesis by (simp add: response_data_catch)
  next
    case succ
    with assms have "d = buildData commit cr cs" by (simp add: response_data_success)
    with succ show ?thesis by blast
  qed
qed

lemma GET_serving:
  "GET (serving cr cs) main_branch = success_response (buildData ''abc123'' cr cs)"
  by (simp add: GET_def try_block_def serving_def main_branch_def success_response_def)

section \<open>The aggregator's claims\<close>

text \<open>
  C1. Whatever the check-runs are, a combined commit status whose state is
  "pending" makes the reduction yield overallStatus = "pending" and
  overallConclusion = "pending"; a failed, cancelled or timed-out check-run
  does not change that.
\<close>

theorem pending_state_overrides:
  "state cs = ''pending'' \<Longrightarrow>
     reduce (check_runs cr) (state cs) = (''pending'', ''pending'') \<and>
     overallStatus (buildData commit cr cs) = ''pending'' \<and>
     overallConclusion (buildData commit cr cs) = ''pending''"
  by (simp add: buildData_def reduce_def commitStatusPass_def)

theorem pending_state_overrides_witness:
  "state \<lparr> state = ''pending'', statuses = [] \<rparr> = ''pending'' \<and>
   hasFailure [failed_run] \<and>
   overallStatus (buildData ''abc123'' \<lparr> total_count = 1, check_runs = [failed_run] \<rparr>
      \<lparr> state = ''pending'', statuses = [] \<rparr>) = ''pending'' \<and>
   overallConclusion (buildData ''abc123'' \<lparr> total_count = 1, check_runs = [failed_run] \<rparr>
      \<lparr> state = ''pending'', statuses = [] \<rparr>) = ''pending''"
  using pending_state_overrides
    [of "\<lparr> state = ''pending'', statuses = [] \<rparr>"
        "\<lparr> total_count = 1, check_runs = [failed_run] \<rparr>" "''abc123''"]
  by (simp add: hasFailure_def failed_run_def)

text \<open>
  C2, as stated, fails: the handler was given a full page of 100 check-runs
  while upstream counts 101 of them, and one commit status. The response
  lists 100 check-runs and 1 commit status, and its totalCount is 102.
\<close>

theorem totalCount_exceeds_lists:
  "GET (serving \<lparr> total_count = 101, check_runs = replicate 100 passed_run \<rparr>
                \<lparr> state = ''success'', statuses = [green_status] \<rparr>) main_branch
     = success_response (buildData ''abc123''
          \<lparr> total_count = 101, check_runs = replicate 100 passed_run \<rparr>
          \<lparr> state = ''success'', statuses = [green_status] \<rparr>) \<and>
   totalCount (buildData ''abc123''
          \<lparr> total_count = 101, check_runs = replicate 100 passed_run \<rparr>
          \<lparr> state = ''success'', statuses = [green_status] \<rparr>) = 102 \<and>
   length (checkRuns (buildData ''abc123''
          \<lparr> total_count = 101, check_runs = replicate 100 passed_run \<rparr>
          \<lparr> state = ''success'', statuses = [green_status] \<rparr>)) = 100 \<and>
   length (commitStatuses (buildData ''abc123''
          \<lparr> total_count = 101, check_runs = replicate 100 passed_run \<rparr>
          \<lparr> state = ''success'', statuses = [green_status] \<rparr>)) = 1 \<and>
   totalCount (buildData ''abc123''
          \<lparr> total_count = 101, check_runs = replicate 100 passed_run \<rparr>
          \<lparr> state = ''success'', statuses = [green_status] \<rparr>) \<noteq>
     int (length (checkRuns (buildData ''abc123''
          \<lparr> total_count = 101, check_runs = replicate 100 passed_run \<rparr>
          \<lparr> state = ''success'', statuses = [green_status] \<rparr>))) +
     int (length (commitStatuses (buildData ''abc123''
          \<lparr> total_count = 101, check_runs = replicate 100 passed_run \<rparr>
          \<lparr> state = ''success'', statuses = [green_status] \<rparr>)))"
  by (simp add: GET_serving buildData_def)

text \<open>
  C2, amended. In every successful response, the checkRuns list is as long
  as the page of check-runs that upstream returned, and totalCount is the
  total that upstream reports for the check-runs (its \<open>total_count\<close>) plus the
  number of entries of the returned commitStatuses list. So totalCount is
  the sum of the lengths of the two returned lists exactly when upstream's
  total is the length of the page.
\<close>

theorem totalCount_is_upstream_total_plus_statuses:
  assumes "response_data (GET c p) = Some d"
  shows "\<exists>a token b commit cr.
           getAuth c = Inr a \<and>
           getToken c (user a) (owner p) (repo p) = Inr (Some token) \<and>
           decodeURIComponent c (branch p) = Inr b \<and>
           getBranch c token (owner p) (repo p) b = Inr commit \<and>
           listForRef c token (owner p) (repo p) commit 100 = Inr cr \<and>
           length (checkRuns d) = length (check_runs cr) \<and>
           totalCount d = total_count cr + int (length (commitStatuses d)) \<and>
           (totalCount d = int (length (checkRuns d)) + int (length (commitStatuses d))
              \<longleftrightarrow> total_count cr = int (length (check_runs cr)))"
proof -
  from GET_data [OF assms] obtain a token b commit cr cs where
    calls: "getAuth c = Inr a" "getToken c (user a) (owner p) (repo p) = Inr (Some token)"
      "decodeURIComponent c (branch p) = Inr b"
      "getBranch c token (owner p) (repo p) b = Inr commit"
      "listForRef c token (owner p) (repo p) commit 100 = Inr cr"
    and d: "d = buildData commit cr cs"
    by blast
  from d have "length (checkRuns d) = length (check_runs cr)"
    "totalCount d = total_count cr + int (length (commitStatuses d))"
    by (simp_all add: buildData_def)
  with calls show ?thesis by auto
qed

theorem totalCount_is_upstream_total_plus_statuses_witness:
  "response_data (GET (serving \<lparr> total_count = 3, check_runs = [passed_run, passed_run, passed_run] \<rparr>
                \<lparr> state = ''success'', statuses = [green_status] \<rparr>) main_branch)
     = Some (buildData ''abc123''
          \<lparr> total_count = 3, check_runs = [passed_run, passed_run, passed_run] \<rparr>
          \<lparr> state = ''success'', statuses = [green_status] \<rparr>) \<and>
   totalCount (buildData ''abc123''
          \<lparr> total_count = 3, check_runs = [passed_run, passed_run, passed_run] \<rparr>
          \<lparr> state = ''success'', statuses = [green_status] \<rparr>) = 4"
  using totalCount_is_upstream_total_plus_statuses
    [of "serving \<lparr> total_count = 3, check_runs = [passed_run, passed_run, passed_run] \<rparr>
                \<lparr> state = ''success'', statuses = [green_status] \<rparr>" main_branch
        "buildData ''abc123''
          \<lparr> total_count = 3, check_runs = [passed_run, passed_run, passed_run] \<rparr>
          \<lparr> state = ''success'', statuses = [green_status] \<rparr>"]
  by (simp add: GET_serving response_data_success) (simp add: serving_def buildData_def)

text \<open>
  C3, as stated, fails: of two check-runs one has failed and one is in
  progress, and the combined commit status is "success"; overallStatus is
  "failure", not "pending".
\<close>

theorem running_beside_failed_is_failure:
  "hasPending [failed_run, running_run] \<and>
   state \<lparr> state = ''success'', statuses = [green_status] \<rparr> = ''success'' \<and>
   fst (reduce [failed_run, running_run] ''success'') = ''failure'' \<and>
   overallStatus (buildData ''abc123''
      \<lparr> total_count = 2, check_runs = [failed_run, running_run] \<rparr>
      \<lparr> state = ''success'', statuses = [green_status] \<rparr>) \<noteq> ''pending''"
  by (simp add: buildData_def reduce_def commitStatusPass_def checkRunPass_def hasFailure_def
      hasPending_def failed_run_def running_run_def initial_overall_def)

text \<open>
  C3, amended. If some check-run is queued or in progress, no check-run has
  the conclusion failure, cancelled or timed_out, and the combined commit
  status state is neither "failure" nor "error" (so it may be "success", or
  a state that is absent), then overallStatus is "pending".
\<close>

theorem running_without_failure_is_pending:
  assumes "run \<in> set (check_runs cr)"
    and "run_status run = ''queued'' \<or> run_status run = ''in_progress''"
    and "\<forall>r \<in> set (check_runs cr). run_conclusion r \<noteq> Some ''failure'' \<and>
           run_conclusion r \<noteq> Some ''cancelled'' \<and> run_conclusion r \<noteq> Some ''timed_out''"
    and "state cs \<noteq> ''failure''" and "state cs \<noteq> ''error''"
  shows "fst (reduce (check_runs cr) (state cs)) = ''pending'' \<and>
         overallStatus (buildData commit cr cs) = ''pending''"
proof -
  let ?runs = "check_runs cr"
  from assms(1,2) have "hasPending ?runs" by (auto simp: hasPending_iff)
  moreover from assms(3) have "\<not> hasFailure ?runs" by (auto simp: hasFailure_iff)
  ultimately have "checkRunPass ?runs initial_overall = (''pending'', ''pending'')"
    using checkRunPass_cases [of ?runs initial_overall] by auto
  then have "fst (reduce ?runs (state cs)) = ''pending''"
    using assms(4,5) commitStatusPass_cases [of "state cs" "(''pending'', ''pending'')"]
    by (auto simp: reduce_def)
  then show ?thesis by (simp add: buildData_def)
qed

theorem running_without_failure_is_pending_witness:
  "running_run \<in> set [passed_run, running_run] \<and>
   run_status running_run = ''in_progress'' \<and>
   \<not> hasFailure [passed_run, running_run] \<and>
   overallStatus (buildData ''abc123''
      \<lparr> total_count = 2, check_runs = [passed_run, running_run] \<rparr>
      \<lparr> state = ''success'', statuses = [green_status] \<rparr>) = ''pending''"
  using running_without_failure_is_pending
    [of running_run "\<lparr> total_count = 2, check_runs = [passed_run, running_run] \<rparr>"
        "\<lparr> state = ''success'', statuses = [green_status] \<rparr>" "''abc123''"]
  by (simp add: hasFailure_def passed_run_def running_run_def)

text \<open>
  C5. overallStatus and overallConclusion are each "success", "pending" or
  "failure"; and neither pass of the reduction turns a value that is not
  "success" into "success", so a value that the check-run pass left at
  "pending" or "failure" is not "success" at the end.
\<close>

theorem overall_values_and_stickiness:
  "overallStatus (buildData commit \<lparr> total_count = n, check_runs = runs \<rparr>
      \<lparr> state = s, statuses = sts \<rparr>) \<in> {''success'', ''pending'', ''failure''} \<and>
   overallConclusion (buildData commit \<lparr> total_count = n, check_runs = runs \<rparr>
      \<lparr> state = s, statuses = sts \<rparr>) \<in> {''success'', ''pending'', ''failure''} \<and>
   fst (reduce runs s) \<in> {''success'', ''pending'', ''failure''} \<and>
   snd (reduce runs s) \<in> {''success'', ''pending'', ''failure''} \<and>
   (\<forall>v. fst v \<noteq> ''success'' \<longrightarrow>
        fst (checkRunPass runs v) \<noteq> ''success'' \<and> fst (commitStatusPass s v) \<noteq> ''success'') \<and>
   (\<forall>v. snd v \<noteq> ''success'' \<longrightarrow>
        snd (checkRunPass runs v) \<noteq> ''success'' \<and> snd (commitStatusPass s v) \<noteq> ''success'') \<and>
   (fst (checkRunPass runs initial_overall) \<noteq> ''success'' \<longrightarrow> fst (reduce runs s) \<noteq> ''success'') \<and>
   (snd (checkRunPass runs initial_overall) \<noteq> ''success'' \<longrightarrow> snd (reduce runs s) \<noteq> ''success'')"
proof -
  have step1: "fst (checkRunPass runs v) \<noteq> ''success''" if "fst v \<noteq> ''success''" for v
    using that checkRunPass_cases [of runs v] by auto
  have step2: "fst (commitStatusPass s v) \<noteq> ''success''" if "fst v \<noteq> ''success''" for v
    using that commitStatusPass_cases [of s v] by auto
  have step3: "snd (checkRunPass runs v) \<noteq> ''success''" if "snd v \<noteq> ''success''" for v
    using that checkRunPass_cases [of runs v] by auto
  have step4: "snd (commitStatusPass s v) \<noteq> ''success''" if "snd v \<noteq> ''success''" for v
    using that commitStatusPass_cases [of s v] by auto
  have range: "fst (reduce runs s) \<in> {''success'', ''pending'', ''failure''}"
    "snd (reduce runs s) \<in> {''success'', ''pending'', ''failure''}"
    using checkRunPass_cases [of runs initial_overall]
      commitStatusPass_cases [of s "checkRunPass runs initial_overall"]
    by (auto simp: reduce_def initial_overall_def)
  show ?thesis using step1 step2 step3 step4 range by (simp add: reduce_def buildData_def)
qed

theorem overall_values_and_stickiness_witness:
  "fst (checkRunPass [running_run] initial_overall) \<noteq> ''success'' \<and>
   snd (checkRunPass [running_run] initial_overall) \<noteq> ''success'' \<and>
   fst (reduce [running_run] ''success'') \<noteq> ''success'' \<and>
   snd (reduce [running_run] ''success'') \<noteq> ''success'' \<and>
   fst (commitStatusPass ''success'' (''failure'', ''failure'')) \<noteq> ''success'' \<and>
   snd (checkRunPass [running_run] (''failure'', ''failure'')) \<noteq> ''success''"
proof -
  have a: "fst (checkRunPass [running_run] initial_overall) \<noteq> ''success''"
    "snd (checkRunPass [running_run] initial_overall) \<noteq> ''success''"
    by (simp_all add: checkRunPass_def hasFailure_def hasPending_def running_run_def)
  have b: "fst (''failure'', ''failure'') \<noteq> ''success''" "snd (''failure'', ''failure'') \<noteq> ''success''"
    by simp_all
  from overall_values_and_stickiness [of "''abc123''" 1 "[running_run]" "''success''" "[]"] a b
  show ?thesis by blast
qed

text \<open>
  C6. If some check-run has the conclusion failure, cancelled or timed_out
  and the combined commit status state is not "pending", then
  overallConclusion is "failure".
\<close>

theorem failed_run_gives_failure:
  assumes "run \<in> set (check_runs cr)"
    and "run_conclusion run = Some ''failure'' \<or> run_conclusion run = Some ''cancelled''
           \<or> run_conclusion run = Some ''timed_out''"
    and "state cs \<noteq> ''pending''"
  shows "snd (reduce (check_runs cr) (state cs)) = ''failure'' \<and>
         overallConclusion (buildData commit cr cs) = ''failure''"
proof -
  let ?runs = "check_runs cr"
  from assms(1,2) have "hasFailure ?runs" by (auto simp: hasFailure_iff)
  then have "checkRunPass ?runs initial_overall = (''failure'', ''failure'')"
    using checkRunPass_cases [of ?runs initial_overall] by auto
  then have "snd (reduce ?runs (state cs)) = ''failure''"
    using assms(3) commitStatusPass_cases [of "state cs" "(''failure'', ''failure'')"]
    by (auto simp: reduce_def)
  then show ?thesis by (simp add: buildData_def)
qed

theorem failed_run_gives_failure_witness:
  "failed_run \<in> set [running_run, failed_run] \<and>
   run_conclusion failed_run = Some ''failure'' \<and>
   state \<lparr> state = ''success'', statuses = [green_status] \<rparr> \<noteq> ''pending'' \<and>
   overallConclusion (buildData ''abc123''
      \<lparr> total_count = 2, check_runs = [running_run, failed_run] \<rparr>
      \<lparr> state = ''success'', statuses = [green_status] \<rparr>) = ''failure''"
  using failed_run_gives_failure
    [of failed_run "\<lparr> total_count = 2, check_runs = [running_run, failed_run] \<rparr>"
        "\<lparr> state = ''success'', statuses = [green_status] \<rparr>" "''abc123''"]
  by (simp add: failed_run_def)

text \<open>
  C7. Without a session the endpoint answers 401 with an empty body. With a
  session, whenever something fails (the token is missing, or a call throws:
  the branch lookup, the check-run listing, the combined status, or any
  other collaborator) it answers 500 with the error envelope: status
  "error", a message, no data, and details only in the development posture.
  A response that carries data is one for which nothing failed, so there is
  no partial result.
\<close>

theorem status_endpoint_failures:
  "(no_session c \<longrightarrow> GET c p = Response 401 NoBody) \<and>
   (\<not> no_session c \<longrightarrow> \<not> all_calls_succeed c p \<longrightarrow>
        is_error_envelope (NODE_ENV c = ''development'') (GET c p)) \<and>
   (has_data (GET c p) \<longrightarrow> \<not> no_session c \<and> all_calls_succeed c p)"
proof -
  have nd: "\<not> has_data (Response 401 NoBody)" by (simp add: has_data_def)
  show ?thesis
    using GET_cases [of c p] catch_block_envelope [of c] catch_block_no_data [of c] nd
    by auto
qed

theorem status_endpoint_failures_witness:
  "no_session signed_out \<and> GET signed_out main_branch = Response 401 NoBody \<and>
   \<not> no_session (branch_missing ''development'') \<and>
   \<not> all_calls_succeed (branch_missing ''development'') main_branch \<and>
   GET (branch_missing ''development'') main_branch =
     Response 500 (JsonBody [(''status'', JString ''error''),
        (''message'', JString ''Branch not found''), (''details'', JString ''at getBranch'')]) \<and>
   GET (branch_missing ''production'') main_branch =
     Response 500 (JsonBody [(''status'', JString ''error''),
        (''message'', JString ''Branch not found'')]) \<and>
   has_data (GET (serving \<lparr> total_count = 0, check_runs = [] \<rparr>
                          \<lparr> state = ''success'', statuses = [] \<rparr>) main_branch) \<and>
   all_calls_succeed (serving \<lparr> total_count = 0, check_runs = [] \<rparr>
                          \<lparr> state = ''success'', statuses = [] \<rparr>) main_branch"
  using status_endpoint_failures [of signed_out main_branch]
    status_endpoint_failures [of "branch_missing ''development''" main_branch]
    status_endpoint_failures [of "serving \<lparr> total_count = 0, check_runs = [] \<rparr>
                          \<lparr> state = ''success'', statuses = [] \<rparr>" main_branch]
  by (simp add: no_session_def all_calls_succeed_def signed_out_def branch_missing_def
      main_branch_def GET_def try_block_def catch_block_def serving_def has_data_def)

text \<open>
  C10. The reduction gives overallStatus and overallConclusion the same
  value, and so does every response that carries a result.
\<close>

theorem overall_fields_agree:
  "fst (reduce runs s) = snd (reduce runs s) \<and>
   (response_data (GET c p) = Some d \<longrightarrow> overallStatus d = overallConclusion d)"
proof
  show "fst (reduce runs s) = snd (reduce runs s)" by (rule reduce_fields_agree)
next
  show "response_data (GET c p) = Some d \<longrightarrow> overallStatus d = overallConclusion d"
  proof
    assume "response_data (GET c p) = Some d"
    from GET_data [OF this] obtain commit cr cs where "d = buildData commit cr cs" by blast
    then show "overallStatus d = overallConclusion d"
      by (simp add: buildData_def reduce_fields_agree)
  qed
qed

theorem overall_fields_agree_witness:
  "response_data (GET (serving \<lparr> total_count = 2, check_runs = [failed_run, running_run] \<rparr>
                \<lparr> state = ''success'', statuses = [green_status] \<rparr>) main_branch)
     = Some (buildData ''abc123''
          \<lparr> total_count = 2, check_runs = [failed_run, running_run] \<rparr>
          \<lparr> state = ''success'', statuses = [green_status] \<rparr>) \<and>
   overallStatus (buildData ''abc123''
          \<lparr> total_count = 2, check_runs = [failed_run, running_run] \<rparr>
          \<lparr> state = ''success'', statuses = [green_status] \<rparr>) =
   overallConclusion (buildData ''abc123''
          \<lparr> total_count = 2, check_runs = [failed_run, running_run] \<rparr>
          \<lparr> state = ''success'', statuses = [green_status] \<rparr>)"
  using overall_fields_agree
    [of "[]" "''success''"
        "serving \<lparr> total_count = 2, check_runs = [failed_run, running_run] \<rparr>
                \<lparr> state = ''success'', statuses = [green_status] \<rparr>" main_branch
        "buildData ''abc123''
          \<lparr> total_count = 2, check_runs = [failed_run, running_run] \<rparr>
          \<lparr> state = ''success'', statuses = [green_status] \<rparr>"]
  by (simp add: GET_serving response_data_success)

section \<open>Lemmas on the poller\<close>

lemma fetchStatus_stopped: "3 \<le> failures s \<Longrightarrow> fetchStatus captured out s = s"
  by (simp add: fetchStatus_def)

lemma poll_stopped: "3 \<le> failures s \<Longrightarrow> poll captured outs s = s"
  by (induction outs) (simp_all add: fetchStatus_stopped)

lemma failures_finally [simp]: "failures (finally_fetch s) = failures s"
  by (simp add: finally_fetch_def)

lemma requests_finally [simp]: "requests (finally_fetch s) = requests s"
  by (simp add: finally_fetch_def)

lemma requests_catch [simp]: "requests (catch_fetch m s) = requests s"
  by (simp add: catch_fetch_def)

lemma fetchStatus_non_2xx:
  assumes "failures s < 3" and "\<not> ok code"
  shows "failures (fetchStatus captured (HttpResponse code b) s) = 999"
    and "requests (fetchStatus captured (HttpResponse code b) s) = requests s + 1"
  using assms by (simp_all add: fetchStatus_def Let_def catch_fetch_def)

lemma fetchStatus_bad_payload:
  assumes "failures s < 3" and "ok code" and "isMounted s" and "p_status d \<noteq> Some ''success''"
  shows "failures (fetchStatus captured (HttpResponse code (JsonValue d)) s) = failures s + 1"
  using assms by (simp add: fetchStatus_def Let_def catch_fetch_def)

section \<open>Lemmas on the sort and the timestamps\<close>

lemma set_insert_by: "set (insert_by cmp x ys) = insert x (set ys)"
  by (induction ys) auto

lemma set_js_sort: "set (js_sort cmp xs) = set xs"
  by (induction xs) (simp_all add: js_sort_def set_insert_by)

text \<open>On timestamps that parse, the comparator is the difference of the instants.\<close>

lemma sort_compare_instants:
  assumes "getTime parse x \<noteq> None" and "getTime parse y \<noteq> None"
  shows "sort_compare (compareFn parse) x y = instant parse y - instant parse x"
  using assms by (auto simp: sort_compare_def compareFn_def instant_def)

lemma latest_first_insert_by:
  assumes valid: "\<forall>t \<in> insert x (set ys). getTime parse t \<noteq> None"
    and head: "latest_first parse ys"
  shows "latest_first parse (insert_by (compareFn parse) x ys)"
proof (cases ys)
  case Nil
  then show ?thesis by (simp add: latest_first_def)
next
  case (Cons y ys')
  from valid Cons have cmp: "sort_compare (compareFn parse) x y = instant parse y - instant parse x"
    by (intro sort_compare_instants) auto
  show ?thesis
  proof (cases "instant parse y \<le> instant parse x")
    case True
    with cmp Cons have "insert_by (compareFn parse) x ys = x # y # ys'" by simp
    moreover from head Cons have "\<forall>z \<in> set (y # ys'). instant parse z \<le> instant parse y"
      by (simp add: latest_first_def)
    ultimately show ?thesis using True by (fastforce simp: latest_first_def)
  next
    case False
    with cmp Cons have "insert_by (compareFn parse) x ys = y # insert_by (compareFn parse) x ys'"
      by simp
    moreover from head Cons have "\<forall>z \<in> set (y # ys'). instant parse z \<le> instant parse y"
      by (simp add: latest_first_def)
    ultimately show ?thesis using False by (auto simp: latest_first_def set_insert_by)
  qed
qed

lemma latest_first_js_sort:
  "\<forall>t \<in> set xs. getTime parse t \<noteq> None \<Longrightarrow> latest_first parse (js_sort (compareFn parse) xs)"
proof (induction xs)
  case Nil
  show ?case by (simp add: js_sort_def latest_first_def)
next
  case (Cons x xs)
  then have "latest_first parse (js_sort (compareFn parse) xs)" by simp
  moreover from Cons.prems
  have "\<forall>t \<in> insert x (set (js_sort (compareFn parse) xs)). getTime parse t \<noteq> None"
    by (simp add: set_js_sort)
  ultimately have "latest_first parse (insert_by (compareFn parse) x (js_sort (compareFn parse) xs))"
    by (intro latest_first_insert_by)
  then show ?case by (simp add: js_sort_def)
qed

lemma hd_js_sort:
  assumes "\<forall>t \<in> set xs. getTime parse t \<noteq> None" and "xs \<noteq> []"
  shows "hd (js_sort (compareFn parse) xs) \<in> set xs"
    and "instant parse (hd (js_sort (compareFn parse) xs)) = Max (instant parse ` set xs)"
proof -
  let ?ys = "js_sort (compareFn parse) xs"
  from assms(2) have "?ys \<noteq> []" using set_js_sort [of "compareFn parse" xs] by auto
  then have "hd ?ys \<in> set ?ys" by simp
  then show mem: "hd ?ys \<in> set xs" by (simp add: set_js_sort)
  from latest_first_js_sort [OF assms(1)]
  have "\<forall>z \<in> set xs. instant parse z \<le> instant parse (hd ?ys)"
    by (simp add: latest_first_def set_js_sort)
  with mem show "instant parse (hd ?ys) = Max (instant parse ` set xs)"
    by (intro Max_eqI [symmetric]) auto
qed

text \<open>
  On timestamps that parse (none of them is the empty string), \<open>||\<close> picks
  what the specification's "if non-null, otherwise" picks.
\<close>

lemma js_or_spec:
  assumes "\<forall>t. completedAt run = Some t \<or> startedAt run = Some t \<longrightarrow> getTime parse t \<noteq> None"
  shows "js_or (completedAt run) (startedAt run) = spec_timestamp run"
  using assms by (auto simp: js_or_def spec_timestamp_def getTime_def split: option.splits)

lemma timestamps_spec:
  assumes "\<forall>run \<in> set runs. \<forall>t. completedAt run = Some t \<or> startedAt run = Some t
             \<longrightarrow> getTime parse t \<noteq> None"
  shows "map the (filter (\<lambda>t. t \<noteq> None) (map (\<lambda>run. js_or (completedAt run) (startedAt run)) runs))
           = spec_timestamps runs"
proof -
  from assms have "map (\<lambda>run. js_or (completedAt run) (startedAt run)) runs = map spec_timestamp runs"
    by (intro map_cong refl js_or_spec) blast
  then show ?thesis by (simp only: spec_timestamps_def)
qed

lemma spec_timestamps_valid:
  assumes "\<forall>run \<in> set runs. \<forall>t. completedAt run = Some t \<or> startedAt run = Some t
             \<longrightarrow> getTime parse t \<noteq> None"
  shows "\<forall>t \<in> set (spec_timestamps runs). getTime parse t \<noteq> None"
  using assms by (auto simp: spec_timestamps_def spec_timestamp_def split: option.splits)

lemma getMostRecentTimestamp_none:
  assumes "\<forall>run \<in> set (checkRuns bs). completedAt run = None \<and> startedAt run = None"
  shows "getMostRecentTimestamp parse bs = None"
proof -
  from assms have "filter (\<lambda>t. t \<noteq> None)
      (map (\<lambda>run. js_or (completedAt run) (startedAt run)) (checkRuns bs)) = []"
    by (auto simp: filter_empty_conv js_or_def)
  then show ?thesis by (simp add: getMostRecentTimestamp_def)
qed

section \<open>The poller's claims\<close>

text \<open>
  C4, as stated, fails: the first fetch of a mount gets a 2xx response whose
  JSON payload has status "error". The failure counter is then 1, not the
  stop value 999, and the next scheduled attempt sends a second request.
\<close>

theorem error_payload_keeps_polling:
  "ok 200 \<and> p_status error_payload \<noteq> Some ''success'' \<and>
   failures (fetchStatus None (HttpResponse 200 (JsonValue error_payload)) mounted) = 1 \<and>
   failures (fetchStatus None (HttpResponse 200 (JsonValue error_payload)) mounted) \<noteq> 999 \<and>
   requests (fetchStatus None (HttpResponse 200 (JsonValue error_payload)) mounted) = 1 \<and>
   requests (poll None [HttpResponse 200 (JsonValue error_payload),
                        HttpResponse 200 (JsonValue error_payload)] mounted) = 2"
  by (simp add: fetchStatus_def Let_def catch_fetch_def finally_fetch_def mounted_def ok_def
      error_payload_def)

text \<open>
  C4, amended. With fetch attempts that run one after the other: an attempt
  that gets a non-2xx response sets the failure counter to the stop value
  999, and no later attempt of the mount sends a request. An attempt that
  gets a 2xx response whose JSON payload is not marked "success" adds one
  to the counter (while the component is mounted). Once the counter is 3 or
  more, no attempt sends a request.
\<close>

theorem failed_fetch_counter:
  "(failures s < 3 \<longrightarrow> \<not> ok code \<longrightarrow>
      failures (fetchStatus captured (HttpResponse code b) s) = 999 \<and>
      requests (fetchStatus captured (HttpResponse code b) s) = requests s + 1 \<and>
      requests (poll captured outs (fetchStatus captured (HttpResponse code b) s)) = requests s + 1) \<and>
   (failures s < 3 \<longrightarrow> ok code2 \<longrightarrow> isMounted s \<longrightarrow> p_status d \<noteq> Some ''success'' \<longrightarrow>
      failures (fetchStatus captured (HttpResponse code2 (JsonValue d)) s) = failures s + 1) \<and>
   (3 \<le> failures s \<longrightarrow> requests (poll captured outs s) = requests s)"
proof (intro conjI impI)
  assume a: "failures s < 3" "\<not> ok code"
  let ?s' = "fetchStatus captured (HttpResponse code b) s"
  from a show f: "failures ?s' = 999" by (rule fetchStatus_non_2xx)
  from a show r: "requests ?s' = requests s + 1" by (rule fetchStatus_non_2xx)
  from f have "poll captured outs ?s' = ?s'" by (simp add: poll_stopped)
  with r show "requests (poll captured outs ?s') = requests s + 1" by simp
next
  assume "failures s < 3" "ok code2" "isMounted s" "p_status d \<noteq> Some ''success''"
  then show "failures (fetchStatus captured (HttpResponse code2 (JsonValue d)) s) = failures s + 1"
    by (rule fetchStatus_bad_payload)
next
  assume "3 \<le> failures s"
  then show "requests (poll captured outs s) = requests s" by (simp add: poll_stopped)
qed

theorem failed_fetch_counter_witness:
  "failures mounted < 3 \<and> \<not> ok 500 \<and>
   failures (fetchStatus None (HttpResponse 500 (JsonThrows [])) mounted) = 999 \<and>
   requests (poll None [HttpResponse 200 (JsonValue error_payload), FetchThrows ''x'']
      (fetchStatus None (HttpResponse 500 (JsonThrows [])) mounted)) = 1 \<and>
   ok 200 \<and> isMounted mounted \<and> p_status error_payload \<noteq> Some ''success'' \<and>
   failures (fetchStatus None (HttpResponse 200 (JsonValue error_payload)) mounted) = 1 \<and>
   3 \<le> failures (mounted\<lparr> failures := 3 \<rparr>) \<and>
   requests (poll None [FetchThrows ''x''] (mounted\<lparr> failures := 3 \<rparr>)) = 0"
  using failed_fetch_counter [of mounted 500 None "JsonThrows []"
         "[HttpResponse 200 (JsonValue error_payload), FetchThrows ''x'']" 200 error_payload]
    failed_fetch_counter [of "mounted\<lparr> failures := 3 \<rparr>" 500 None "JsonThrows []"
         "[FetchThrows ''x'']" 200 error_payload]
  by (simp add: mounted_def ok_def error_payload_def)

text \<open>
  C8, as stated, fails: the component receives a result with totalCount 0,
  and the next fetch times out. The result is still the component's
  \<open>buildStatus\<close>, and the component renders the empty fixed-height
  placeholder, which is not nothing.
\<close>

theorem empty_result_then_error_is_placeholder:
  "buildStatus (poll None
      [HttpResponse 200 (JsonValue \<lparr> p_status = Some ''success'', p_data = Some empty_result,
                                     p_message = None \<rparr>),
       FetchThrows ''The operation timed out''] mounted) = Some empty_result \<and>
   totalCount empty_result = 0 \<and>
   render example_parse (poll None
      [HttpResponse 200 (JsonValue \<lparr> p_status = Some ''success'', p_data = Some empty_result,
                                     p_message = None \<rparr>),
       FetchThrows ''The operation timed out''] mounted) = Placeholder \<and>
   Placeholder \<noteq> Nothing"
  by (simp add: fetchStatus_def Let_def catch_fetch_def finally_fetch_def mounted_def ok_def
      empty_result_def render_def truthy_def)

text \<open>
  C8, amended. For every received build-status result, if totalCount is 0 or
  the permissionError flag is set, the component renders no badge: it
  renders nothing (collapses) when no fetch error is recorded, and the empty
  fixed-height placeholder when one is.
\<close>

theorem empty_result_renders_no_badge:
  assumes "buildStatus s = Some bs"
    and "totalCount bs = 0 \<or> permissionError bs = Some True"
  shows "render parse s = (if truthy (error s) then Placeholder else Nothing)"
  using assms by (auto simp: render_def)

theorem empty_result_renders_no_badge_witness:
  "buildStatus (fetchStatus None
      (HttpResponse 200 (JsonValue \<lparr> p_status = Some ''success'', p_data = Some empty_result,
                                     p_message = None \<rparr>)) mounted) = Some empty_result \<and>
   totalCount empty_result = 0 \<and>
   render example_parse (fetchStatus None
      (HttpResponse 200 (JsonValue \<lparr> p_status = Some ''success'', p_data = Some empty_result,
                                     p_message = None \<rparr>)) mounted) = Nothing"
  using empty_result_renders_no_badge [of "fetchStatus None
      (HttpResponse 200 (JsonValue \<lparr> p_status = Some ''success'', p_data = Some empty_result,
                                     p_message = None \<rparr>)) mounted" empty_result example_parse]
  by (simp add: fetchStatus_def Let_def finally_fetch_def mounted_def ok_def
      empty_result_def truthy_def)

text \<open>
  C9. The timestamp of a check-run is \<open>completedAt\<close> if it is not null and
  \<open>startedAt\<close> otherwise; runs where both are null have none. When the
  timestamps of the check-runs are timestamps (each one parses to an
  instant), the most recent timestamp that the poller computes is one of
  them and its instant is the maximum of their instants; it is null when no
  run has a timestamp.
\<close>

theorem most_recent_timestamp_is_latest:
  assumes valid: "\<forall>run \<in> set (checkRuns bs). \<forall>t.
             completedAt run = Some t \<or> startedAt run = Some t \<longrightarrow> getTime parse t \<noteq> None"
  shows "(spec_timestamps (checkRuns bs) = [] \<longrightarrow> getMostRecentTimestamp parse bs = None) \<and>
         ((\<forall>run \<in> set (checkRuns bs). completedAt run = None \<and> startedAt run = None) \<longrightarrow>
            getMostRecentTimestamp parse bs = None) \<and>
         (spec_timestamps (checkRuns bs) \<noteq> [] \<longrightarrow>
            (\<exists>t \<in> set (spec_timestamps (checkRuns bs)).
               getMostRecentTimestamp parse bs = Some t \<and>
               instant parse t = Max (instant parse ` set (spec_timestamps (checkRuns bs)))))"
proof -
  let ?ts = "spec_timestamps (checkRuns bs)"
  let ?sorted = "js_sort (compareFn parse) ?ts"
  have code: "getMostRecentTimestamp parse bs =
      (if ?ts = [] then None else (case ?sorted of [] \<Rightarrow> None | t # ts \<Rightarrow> Some t))"
    unfolding getMostRecentTimestamp_def Let_def timestamps_spec [OF valid] by simp
  have parsed: "\<forall>t \<in> set ?ts. getTime parse t \<noteq> None"
    by (rule spec_timestamps_valid [OF valid])
  have latest: "\<exists>t \<in> set ?ts. getMostRecentTimestamp parse bs = Some t \<and>
      instant parse t = Max (instant parse ` set ?ts)" if nonempty: "?ts \<noteq> []"
  proof -
    from nonempty have "?sorted \<noteq> []" using set_js_sort [of "compareFn parse" ?ts] by auto
    then have "(case ?sorted of [] \<Rightarrow> None | t # ts \<Rightarrow> Some t) = Some (hd ?sorted)"
      by (cases ?sorted) simp_all
    with code nonempty have "getMostRecentTimestamp parse bs = Some (hd ?sorted)" by simp
    with hd_js_sort [OF parsed nonempty] show ?thesis by blast
  qed
  from code have "?ts = [] \<longrightarrow> getMostRecentTimestamp parse bs = None" by simp
  with latest getMostRecentTimestamp_none [of bs parse] show ?thesis by blast
qed

theorem most_recent_timestamp_is_latest_witness:
  "spec_timestamps (checkRuns two_runs_result) = [''2024-01-01T00:06:00Z'', ''2024-01-01T00:05:00Z''] \<and>
   getMostRecentTimestamp example_parse two_runs_result = Some ''2024-01-01T00:06:00Z'' \<and>
   instant example_parse ''2024-01-01T00:06:00Z'' =
     Max (instant example_parse ` set (spec_timestamps (checkRuns two_runs_result)))"
proof -
  have ts: "spec_timestamps (checkRuns two_runs_result) =
      [''2024-01-01T00:06:00Z'', ''2024-01-01T00:05:00Z'']"
    by (simp add: two_runs_result_def buildData_def toCheckRun_def running_run_def failed_run_def
       spec_timestamps_def spec_timestamp_def)
  have valid: "\<forall>run \<in> set (checkRuns two_runs_result). \<forall>t.
      completedAt run = Some t \<or> startedAt run = Some t \<longrightarrow> getTime example_parse t \<noteq> None"
    by (auto simp: two_runs_result_def buildData_def toCheckRun_def running_run_def failed_run_def
        getTime_def example_parse_def)
  have res: "getMostRecentTimestamp example_parse two_runs_result = Some ''2024-01-01T00:06:00Z''"
    by (simp add: two_runs_result_def buildData_def toCheckRun_def running_run_def failed_run_def
      getMostRecentTimestamp_def js_or_def js_sort_def sort_compare_def compareFn_def getTime_def
      example_parse_def)
  from most_recent_timestamp_is_latest [OF valid] ts res show ?thesis by auto
qed

end
